theory Spec2Isabelle
  imports Main
begin

section \<open>Calendar dates (utils/dateUtils)\<close>

text \<open>
  A JavaScript \<open>Date\<close> is an instant. It is modelled as the number of milliseconds on the
  local time line, so that a calendar day is a block of \<open>msPerDay\<close> consecutive instants
  (the spec asks for calendar dates that daylight-saving shifts do not affect). The time
  of day of an instant matters: the window start of the timeline may be any instant
  (\<open>new Date(value)\<close> in \<open>handleStartDateChange\<close>), while item bounds are parsed to the
  first and the last instant of their day.

  The module \<open>utils/dateUtils\<close> is imported by the components (\<open>parseDate\<close>,
  \<open>parseDateEnd\<close>, \<open>addDaysToDate\<close>, \<open>getDaysBetweenDates\<close>) but is not among the
  sources; each of its functions below is modelled from its contract in section 4.1 of
  the spec.
\<close>

type_synonym date = int

definition msPerDay :: int where
  "msPerDay = 86400000"

definition calendarDay :: "date \<Rightarrow> int" where
  "calendarDay d = d div msPerDay"

text \<open>
  The two date errors of the spec's taxonomy. The contracts name the function that
  raises \<open>ParseError\<close>; none of the four functions used here raises
  \<open>InvalidRangeError\<close> (\<open>daysBetween\<close> returns a count for any two dates, see below).
\<close>

datatype date_error = ParseError | InvalidRangeError

text \<open>
  Modelled from the spec: \<open>addDaysToDate\<close> of \<open>utils/dateUtils\<close>, missing from the
  sources. "\<open>addDays(date, n)\<close>: returns a new calendar date n days offset; n may be
  negative." The time of day is kept.
\<close>

definition addDaysToDate :: "date \<Rightarrow> int \<Rightarrow> date" where
  "addDaysToDate d n = d + n * msPerDay"

text \<open>
  Modelled from the spec: \<open>getDaysBetweenDates\<close> of \<open>utils/dateUtils\<close>, missing from the
  sources. "\<open>daysBetween(a, b)\<close>: inclusive day count between two calendar dates (same
  day gives 1), independent of time-of-day components." The spec's property
  \<open>daysBetween(addDays(d, n), d) = -n + 1\<close> fixes the value when \<open>b\<close> is before \<open>a\<close>.
\<close>

definition getDaysBetweenDates :: "date \<Rightarrow> date \<Rightarrow> int" where
  "getDaysBetweenDates a b = calendarDay b - calendarDay a + 1"

text \<open>
  Modelled from the spec: the reading of a date-only string, shared by \<open>parseDate\<close> and
  \<open>parseDateEnd\<close> of \<open>utils/dateUtils\<close>, missing from the sources. The spec says
  "date-only string" and that "empty/invalid input strings fail with a \<open>ParseError\<close>";
  the form is taken to be \<open>YYYY-MM-DD\<close> with a day that exists in the month, the form
  the date navigation modal asks for and the spec's scenarios use. \<open>parseCalendarDay\<close>
  gives the number of the day, counted from 1970-01-01, or \<open>None\<close>.
\<close>

definition digitValue :: "char \<Rightarrow> int option" where
  "digitValue c =
     (let n = (of_char c :: nat) in if 48 \<le> n \<and> n \<le> 57 then Some (int n - 48) else None)"

fun digitsValue :: "int \<Rightarrow> string \<Rightarrow> int option" where
  "digitsValue acc [] = Some acc"
| "digitsValue acc (c # cs) =
     (case digitValue c of None \<Rightarrow> None | Some v \<Rightarrow> digitsValue (acc * 10 + v) cs)"

definition isLeapYear :: "int \<Rightarrow> bool" where
  "isLeapYear y = (y mod 4 = 0 \<and> (y mod 100 \<noteq> 0 \<or> y mod 400 = 0))"

definition daysInMonth :: "int \<Rightarrow> int \<Rightarrow> int" where
  "daysInMonth y m =
     (if m = 2 then (if isLeapYear y then 29 else 28)
      else if m = 4 \<or> m = 6 \<or> m = 9 \<or> m = 11 then 30 else 31)"

definition daysFromCivil :: "int \<Rightarrow> int \<Rightarrow> int \<Rightarrow> int" where
  "daysFromCivil y m d =
     (let y' = (if m \<le> 2 then y - 1 else y);
          era = y' div 400;
          yoe = y' - era * 400;
          doy = (153 * (if m > 2 then m - 3 else m + 9) + 2) div 5 + d - 1;
          doe = yoe * 365 + yoe div 4 - yoe div 100 + doy
      in era * 146097 + doe - 719468)"

definition parseCalendarDay :: "string \<Rightarrow> int option" where
  "parseCalendarDay s =
     (if length s = 10 \<and> s ! 4 = CHR ''-'' \<and> s ! 7 = CHR ''-'' then
        (case (digitsValue 0 (take 4 s), digitsValue 0 (take 2 (drop 5 s)),
               digitsValue 0 (drop 8 s)) of
           (Some y, Some m, Some d) \<Rightarrow>
             if 1 \<le> m \<and> m \<le> 12 \<and> 1 \<le> d \<and> d \<le> daysInMonth y m
             then Some (daysFromCivil y m d) else None
         | _ \<Rightarrow> None)
      else None)"

text \<open>
  Modelled from the spec: \<open>parseDate\<close> of \<open>utils/dateUtils\<close>, missing from the sources.
  "\<open>parseRangeStart(s)\<close>: parse a date-only string into a date representing the
  start-of-day boundary"; an invalid string fails with \<open>ParseError\<close>.
\<close>

definition parseDate :: "string \<Rightarrow> date_error + date" where
  "parseDate s =
     (case parseCalendarDay s of
        None \<Rightarrow> Inl ParseError
      | Some k \<Rightarrow> Inr (k * msPerDay))"

text \<open>
  Modelled from the spec: \<open>parseDateEnd\<close> of \<open>utils/dateUtils\<close>, missing from the
  sources. "\<open>parseRangeEnd(s)\<close>: ... the end-of-day boundary", "so that an item ending
  on a day is still considered present through that entire day": the last millisecond
  of the day. An invalid string fails with \<open>ParseError\<close>.
\<close>

definition parseDateEnd :: "string \<Rightarrow> date_error + date" where
  "parseDateEnd s =
     (case parseCalendarDay s of
        None \<Rightarrow> Inl ParseError
      | Some k \<Rightarrow> Inr (k * msPerDay + (msPerDay - 1)))"


section \<open>Timeline layout (GanttChart)\<close>

text \<open>
  \<open>GanttItem\<close>, with the two fields the layout reads and the two that identify the item
  and its row (\<open>id\<close> is written \<open>itemId\<close>). Type, title, colour and details are not
  read by the layout; an extension of the record can carry them.
\<close>

record GanttItem =
  itemId :: string
  vehicleId :: string
  startDate :: string
  endDate :: string

record ItemPosition =
  left :: int
  width :: int

definition DAY_WIDTH_PX :: int where
  "DAY_WIDTH_PX = 120"

text \<open>
  \<open>calculateItemPosition\<close> of \<open>GanttChart\<close>. The props \<open>startDate\<close> and \<open>daysToShow\<close>
  it closes over are its first two arguments. The function has no \<open>try\<close>: an exception
  of a parser leaves it as it is, which the result \<open>Inl\<close> stands for; \<open>Inr None\<close> is the
  \<open>null\<close> of an item out of the visible range.
\<close>

definition calculateItemPosition ::
  "date \<Rightarrow> int \<Rightarrow> 'a GanttItem_scheme \<Rightarrow> date_error + ItemPosition option" where
  "calculateItemPosition chartStart daysToShow item =
     (case parseDate (startDate item) of
        Inl e \<Rightarrow> Inl e
      | Inr itemStartDate \<Rightarrow>
     (case parseDateEnd (endDate item) of
        Inl e \<Rightarrow> Inl e
      | Inr itemEndDate \<Rightarrow>
     (let chartStartDate = chartStart;
          chartEndDate = addDaysToDate chartStart (daysToShow - 1)
      in if itemEndDate < chartStartDate \<or> itemStartDate > chartEndDate then Inr None
         else
           (let visibleStartDate =
                  (if itemStartDate < chartStartDate then chartStartDate else itemStartDate);
                visibleEndDate =
                  (if itemEndDate > chartEndDate then chartEndDate else itemEndDate);
                daysFromStart = getDaysBetweenDates chartStartDate visibleStartDate - 1;
                visibleDays = getDaysBetweenDates visibleStartDate visibleEndDate
            in Inr (Some \<lparr> left = max 0 (daysFromStart * DAY_WIDTH_PX),
                            width = max 20 (visibleDays * DAY_WIDTH_PX - 2) \<rparr>)))))"


subsection \<open>The layout with the date helpers as parameters\<close>

text \<open>
  What \<open>calculateItemPosition\<close> does with a malformed date depends on how the parser of
  \<open>utils/dateUtils\<close> answers one, and that module is not among the sources. So the
  function is written a second time with its four imports as parameters, over the
  values JavaScript has: a \<open>Date\<close> is an instant or the Invalid Date (time value
  \<open>NaN\<close>), a number is a number or \<open>NaN\<close>, and any call of a helper may throw (\<open>Inl\<close>).
  The body is the source's, statement by statement, in its order of evaluation.
\<close>

datatype jsDate = Instant date | InvalidDate

datatype jsNumber = Num int | NaN

text \<open>
  \<open>a < b\<close> and \<open>a > b\<close> on two dates compare their time values; a comparison with
  \<open>NaN\<close> is false. \<open>a > b\<close> is \<open>dateLess b a\<close>.
\<close>

fun dateLess :: "jsDate \<Rightarrow> jsDate \<Rightarrow> bool" where
  "dateLess (Instant a) (Instant b) = (a < b)"
| "dateLess _ _ = False"

text \<open>\<open>x - y\<close>, \<open>x * y\<close> and \<open>Math.max(x, y)\<close>: \<open>NaN\<close> when an argument is \<open>NaN\<close>.\<close>

fun numMinus :: "jsNumber \<Rightarrow> jsNumber \<Rightarrow> jsNumber" where
  "numMinus (Num x) (Num y) = Num (x - y)"
| "numMinus _ _ = NaN"

fun numTimes :: "jsNumber \<Rightarrow> jsNumber \<Rightarrow> jsNumber" where
  "numTimes (Num x) (Num y) = Num (x * y)"
| "numTimes _ _ = NaN"

fun mathMax :: "jsNumber \<Rightarrow> jsNumber \<Rightarrow> jsNumber" where
  "mathMax (Num x) (Num y) = Num (max x y)"
| "mathMax _ _ = NaN"

record ItemPositionJS =
  leftPx :: jsNumber
  widthPx :: jsNumber

definition calculateItemPositionWith ::
  "(string \<Rightarrow> 'e + jsDate) \<Rightarrow> (string \<Rightarrow> 'e + jsDate) \<Rightarrow> (jsDate \<Rightarrow> int \<Rightarrow> 'e + jsDate)
     \<Rightarrow> (jsDate \<Rightarrow> jsDate \<Rightarrow> 'e + jsNumber)
     \<Rightarrow> jsDate \<Rightarrow> int \<Rightarrow> 'a GanttItem_scheme \<Rightarrow> 'e + ItemPositionJS option" where
  "calculateItemPositionWith parseDateP parseDateEndP addDaysToDateP getDaysBetweenDatesP
       chartStart daysToShow item =
     (case parseDateP (startDate item) of
        Inl x \<Rightarrow> Inl x
      | Inr itemStartDate \<Rightarrow>
     (case parseDateEndP (endDate item) of
        Inl x \<Rightarrow> Inl x
      | Inr itemEndDate \<Rightarrow>
     (case addDaysToDateP chartStart (daysToShow - 1) of
        Inl x \<Rightarrow> Inl x
      | Inr chartEndDate \<Rightarrow>
     (let chartStartDate = chartStart
      in if dateLess itemEndDate chartStartDate \<or> dateLess chartEndDate itemStartDate
         then Inr None
         else
           (let visibleStartDate =
                  (if dateLess itemStartDate chartStartDate then chartStartDate
                   else itemStartDate);
                visibleEndDate =
                  (if dateLess chartEndDate itemEndDate then chartEndDate else itemEndDate)
            in (case getDaysBetweenDatesP chartStartDate visibleStartDate of
                  Inl x \<Rightarrow> Inl x
                | Inr fromStart \<Rightarrow>
               (case getDaysBetweenDatesP visibleStartDate visibleEndDate of
                  Inl x \<Rightarrow> Inl x
                | Inr visibleDays \<Rightarrow>
                    (let daysFromStart = numMinus fromStart (Num 1)
                     in Inr (Some
                          \<lparr> leftPx = mathMax (Num 0) (numTimes daysFromStart (Num DAY_WIDTH_PX)),
                            widthPx = mathMax (Num 20)
                              (numMinus (numTimes visibleDays (Num DAY_WIDTH_PX)) (Num 2)) \<rparr>)))))))))"

text \<open>
  Two parsers to put in the parameters, which differ on a malformed string only. The
  first pair throws, as the spec words it (the parsers of section 4.1 above, their
  dates as instants).
\<close>

definition parseDateThrowing :: "string \<Rightarrow> date_error + jsDate" where
  "parseDateThrowing s = (case parseDate s of Inl x \<Rightarrow> Inl x | Inr d \<Rightarrow> Inr (Instant d))"

definition parseDateEndThrowing :: "string \<Rightarrow> date_error + jsDate" where
  "parseDateEndThrowing s =
     (case parseDateEnd s of Inl x \<Rightarrow> Inl x | Inr d \<Rightarrow> Inr (Instant d))"

text \<open>
  The second pair returns the Invalid Date, as a parser does that hands the parts of
  the string to \<open>new Date\<close> unchecked. Which of the two the absent module does is not
  known from the sources.
\<close>

definition parseDateLenient :: "string \<Rightarrow> date_error + jsDate" where
  "parseDateLenient s =
     (case parseDate s of Inl x \<Rightarrow> Inr InvalidDate | Inr d \<Rightarrow> Inr (Instant d))"

definition parseDateEndLenient :: "string \<Rightarrow> date_error + jsDate" where
  "parseDateEndLenient s =
     (case parseDateEnd s of Inl x \<Rightarrow> Inr InvalidDate | Inr d \<Rightarrow> Inr (Instant d))"

text \<open>
  The two other helpers of section 4.1 on these values: arithmetic on the time value
  of an Invalid Date gives \<open>NaN\<close> again.
\<close>

definition addDaysToDateJS :: "jsDate \<Rightarrow> int \<Rightarrow> date_error + jsDate" where
  "addDaysToDateJS d n =
     (case d of Instant t \<Rightarrow> Inr (Instant (addDaysToDate t n)) | InvalidDate \<Rightarrow> Inr InvalidDate)"

fun getDaysBetweenDatesJS :: "jsDate \<Rightarrow> jsDate \<Rightarrow> date_error + jsNumber" where
  "getDaysBetweenDatesJS (Instant a) (Instant b) = Inr (Num (getDaysBetweenDates a b))"
| "getDaysBetweenDatesJS _ _ = Inr NaN"


section \<open>List query state (the list-data hooks)\<close>

text \<open>
  \<open>useVehicleSchedulesData\<close>, \<open>useMaintenanceOrdersData\<close> and \<open>useDriversData\<close> hold their
  state in \<open>useState\<close> cells. A hook is modelled as the record of its cells, and each
  action as a function from the record before the call to the record after it. The cells
  the three hooks share form \<open>listHook\<close>; the two hooks with status filters and a summary
  extend it to \<open>statusHook\<close>, the drivers hook to \<open>driversHook\<close>. The fetched rows
  (\<open>vehicleSchedules\<close>, \<open>maintenanceOrders\<close>, \<open>drivers\<close>) are the field \<open>items\<close>; the
  hooks do not look into a row, so its type is a parameter. Page numbers are JavaScript
  numbers that the code only copies and compares; they are integers here.
\<close>

datatype SortDirection = asc | desc

datatype ScheduleSortColumn =
  vs_vehicleName | vs_driverName | vs_startDate | vs_endDate | vs_duration | vs_status

datatype OrderSortColumn =
  mo_orderNumber | mo_vehicleName | mo_startDate | mo_estimatedCompletionDate | mo_cost
  | mo_status

datatype DriverSortColumn = dr_name | dr_email | dr_idNumber | dr_createdAt

record ('c, 'i) listHook =
  searchTerm :: string
  sortBy :: "'c option"
  sortOrder :: SortDirection
  currentPage :: int
  itemsPerPage :: int
  items :: "'i list"
  totalCount :: int
  totalPages :: int
  hasNextPage :: bool
  hasPreviousPage :: bool
  loading :: bool
  error :: "string option"
  debouncedSearchTerm :: string

record ('c, 'i, 's) statusHook = "('c, 'i) listHook" +
  statusFilters :: "string list"
  summary :: "'s option"

record ('c, 'i) driversHook = "('c, 'i) listHook" +
  emailSearchTerm :: string
  debouncedEmailSearchTerm :: string

text \<open>The values the \<open>useState\<close> cells start with, per hook.\<close>

definition useVehicleSchedulesData_initial :: "(ScheduleSortColumn, 'i, 's) statusHook" where
  "useVehicleSchedulesData_initial =
     \<lparr> searchTerm = '''', sortBy = Some vs_startDate, sortOrder = desc, currentPage = 1,
       itemsPerPage = 6, items = [], totalCount = 0, totalPages = 0, hasNextPage = False,
       hasPreviousPage = False, loading = False, error = None, debouncedSearchTerm = '''',
       statusFilters = [''active'', ''scheduled''], summary = None \<rparr>"

definition useMaintenanceOrdersData_initial :: "(OrderSortColumn, 'i, 's) statusHook" where
  "useMaintenanceOrdersData_initial =
     \<lparr> searchTerm = '''', sortBy = Some mo_startDate, sortOrder = desc, currentPage = 1,
       itemsPerPage = 10, items = [], totalCount = 0, totalPages = 0, hasNextPage = False,
       hasPreviousPage = False, loading = False, error = None, debouncedSearchTerm = '''',
       statusFilters = [''active'', ''scheduled'', ''pending_authorization''],
       summary = None \<rparr>"

definition useDriversData_initial :: "(DriverSortColumn, 'i) driversHook" where
  "useDriversData_initial =
     \<lparr> searchTerm = '''', sortBy = None, sortOrder = asc, currentPage = 1,
       itemsPerPage = 10, items = [], totalCount = 0, totalPages = 0, hasNextPage = False,
       hasPreviousPage = False, loading = False, error = None, debouncedSearchTerm = '''',
       emailSearchTerm = '''', debouncedEmailSearchTerm = '''' \<rparr>"

subsection \<open>Actions\<close>

text \<open>\<open>setSearchTerm\<close>, \<open>setCurrentPage\<close>: the same body in the three hooks.\<close>

definition setSearchTerm ::
  "string \<Rightarrow> ('c, 'i, 'z) listHook_scheme \<Rightarrow> ('c, 'i, 'z) listHook_scheme" where
  "setSearchTerm term h = h\<lparr> searchTerm := term, currentPage := 1 \<rparr>"

definition setCurrentPage ::
  "int \<Rightarrow> ('c, 'i, 'z) listHook_scheme \<Rightarrow> ('c, 'i, 'z) listHook_scheme" where
  "setCurrentPage page h = h\<lparr> currentPage := page \<rparr>"

text \<open>
  \<open>toggleStatusFilter\<close>: the same body in \<open>useVehicleSchedulesData\<close> and
  \<open>useMaintenanceOrdersData\<close>. \<open>prev.includes\<close>, \<open>prev.filter\<close> and the spread work on
  the array, so the filters are a list.
\<close>

definition toggleStatusFilter ::
  "string \<Rightarrow> ('c, 'i, 's, 'z) statusHook_scheme \<Rightarrow> ('c, 'i, 's, 'z) statusHook_scheme" where
  "toggleStatusFilter st h =
     (let prev = statusFilters h;
          newFilters = (if st \<in> set prev then filter (\<lambda>s. s \<noteq> st) prev else prev @ [st])
      in h\<lparr> statusFilters := newFilters, currentPage := 1 \<rparr>)"

text \<open>\<open>clearAllFilters\<close>, one per hook.\<close>

definition clearAllFilters_schedules ::
  "(ScheduleSortColumn, 'i, 's, 'z) statusHook_scheme
     \<Rightarrow> (ScheduleSortColumn, 'i, 's, 'z) statusHook_scheme" where
  "clearAllFilters_schedules h =
     h\<lparr> searchTerm := '''', statusFilters := [''active'', ''scheduled''],
        sortBy := Some vs_startDate, sortOrder := desc, currentPage := 1 \<rparr>"

definition clearAllFilters_orders ::
  "(OrderSortColumn, 'i, 's, 'z) statusHook_scheme
     \<Rightarrow> (OrderSortColumn, 'i, 's, 'z) statusHook_scheme" where
  "clearAllFilters_orders h =
     h\<lparr> searchTerm := '''', statusFilters := [], sortBy := Some mo_startDate,
        sortOrder := desc, currentPage := 1 \<rparr>"

definition clearAllFilters_drivers ::
  "(DriverSortColumn, 'i, 'z) driversHook_scheme
     \<Rightarrow> (DriverSortColumn, 'i, 'z) driversHook_scheme" where
  "clearAllFilters_drivers h =
     h\<lparr> searchTerm := '''', emailSearchTerm := '''', sortBy := None, sortOrder := asc,
        currentPage := 1 \<rparr>"

text \<open>
  \<open>handlePageChange\<close> of \<open>VehicleTable\<close> and \<open>DriverTable\<close>: the tables get \<open>totalPages\<close>
  and the callback \<open>onCurrentPageChange\<close> as props; the pages pass the hook's
  \<open>setCurrentPage\<close> for the callback.
\<close>

definition handlePageChange :: "int \<Rightarrow> (int \<Rightarrow> 'h \<Rightarrow> 'h) \<Rightarrow> int \<Rightarrow> 'h \<Rightarrow> 'h" where
  "handlePageChange totalPagesProp onCurrentPageChange page h =
     (if page \<ge> 1 \<and> page \<le> totalPagesProp then onCurrentPageChange page h else h)"

subsection \<open>Fetching\<close>

record 'c QueryParams =
  qp_search :: "string option"
  qp_status :: "string list option"
  qp_sortBy :: "'c option"
  qp_sortOrder :: SortDirection
  qp_page :: int
  qp_limit :: int

record 'i PaginatedResponse =
  r_items :: "'i list"
  r_totalCount :: int
  r_totalPages :: int
  r_hasNextPage :: bool
  r_hasPreviousPage :: bool

text \<open>What a rejected promise carries: an \<open>Error\<close> with its message, or any other value.\<close>

datatype thrown = Error string | NotAnError

text \<open>
  \<open>fetchData\<close> runs in two parts, with the \<open>await\<close> between them. Before it: the two
  setters and the query parameters, read from the cells of the render that made the
  callback (\<open>x || undefined\<close> and the length test give \<open>None\<close>). After it: the \<open>try\<close>
  branch on a response, the \<open>catch\<close> branch on a rejection, then \<open>finally\<close>.
\<close>

definition fetchData_begin ::
  "('c, 'i, 'z) listHook_scheme \<Rightarrow> ('c, 'i, 'z) listHook_scheme" where
  "fetchData_begin h = h\<lparr> loading := True, error := None \<rparr>"

definition queryParams :: "('c, 'i, 's, 'z) statusHook_scheme \<Rightarrow> 'c QueryParams" where
  "queryParams h =
     \<lparr> qp_search = (if debouncedSearchTerm h = '''' then None else Some (debouncedSearchTerm h)),
       qp_status = (if length (statusFilters h) > 0 then Some (statusFilters h) else None),
       qp_sortBy = sortBy h,
       qp_sortOrder = sortOrder h,
       qp_page = currentPage h,
       qp_limit = itemsPerPage h \<rparr>"

definition errorMessage :: "string \<Rightarrow> thrown \<Rightarrow> string" where
  "errorMessage fallback err = (case err of Error message \<Rightarrow> message | NotAnError \<Rightarrow> fallback)"

text \<open>
  The part after the \<open>await\<close> in \<open>useVehicleSchedulesData\<close> and
  \<open>useMaintenanceOrdersData\<close>, which differ in the fallback message only.
\<close>

definition fetchData_settle_status ::
  "string \<Rightarrow> thrown + ('i PaginatedResponse \<times> 's)
     \<Rightarrow> ('c, 'i, 's, 'z) statusHook_scheme \<Rightarrow> ('c, 'i, 's, 'z) statusHook_scheme" where
  "fetchData_settle_status fallback outcome h =
     (case outcome of
        Inr (response, summaryResponse) \<Rightarrow>
          h\<lparr> items := r_items response, totalCount := r_totalCount response,
             totalPages := r_totalPages response, hasNextPage := r_hasNextPage response,
             hasPreviousPage := r_hasPreviousPage response,
             summary := Some summaryResponse, loading := False \<rparr>
      | Inl err \<Rightarrow>
          h\<lparr> error := Some (errorMessage fallback err), items := [], totalCount := 0,
             totalPages := 0, hasNextPage := False, hasPreviousPage := False,
             summary := None, loading := False \<rparr>)"

definition fetchData_settle_schedules ::
  "thrown + ('i PaginatedResponse \<times> 's)
     \<Rightarrow> ('c, 'i, 's, 'z) statusHook_scheme \<Rightarrow> ('c, 'i, 's, 'z) statusHook_scheme" where
  "fetchData_settle_schedules = fetchData_settle_status ''Failed to fetch vehicle schedules''"

definition fetchData_settle_orders ::
  "thrown + ('i PaginatedResponse \<times> 's)
     \<Rightarrow> ('c, 'i, 's, 'z) statusHook_scheme \<Rightarrow> ('c, 'i, 's, 'z) statusHook_scheme" where
  "fetchData_settle_orders = fetchData_settle_status ''Failed to fetch maintenance orders''"

definition fetchData_settle_drivers ::
  "thrown + 'i PaginatedResponse
     \<Rightarrow> ('c, 'i, 'z) driversHook_scheme \<Rightarrow> ('c, 'i, 'z) driversHook_scheme" where
  "fetchData_settle_drivers outcome h =
     (case outcome of
        Inr response \<Rightarrow>
          h\<lparr> items := r_items response, totalCount := r_totalCount response,
             totalPages := r_totalPages response, hasNextPage := r_hasNextPage response,
             hasPreviousPage := r_hasPreviousPage response, loading := False \<rparr>
      | Inl err \<Rightarrow>
          h\<lparr> error := Some (errorMessage ''Failed to fetch drivers'' err), items := [],
             totalCount := 0, totalPages := 0, hasNextPage := False,
             hasPreviousPage := False, loading := False \<rparr>)"

subsection \<open>The schedules hook at run time: debounce timer and requests in flight\<close>

text \<open>
  The effects of \<open>useVehicleSchedulesData\<close> run after a render in which one of their
  dependencies changed. Next to the cells, the run-time state holds the timer of
  \<open>searchTimeoutRef\<close> (the milliseconds left and the term its callback captured; \<open>None\<close>
  when none is pending), every request issued so far, oldest first, and the requests
  still awaiting their answer. An event is a call of an action, the passing of some
  milliseconds, or the answer to the request at a position of the list in flight.
\<close>

record ('i, 's) runtime =
  hook :: "(ScheduleSortColumn, 'i, 's) statusHook"
  searchTimeout :: "(nat \<times> string) option"
  issued :: "ScheduleSortColumn QueryParams list"
  inflight :: "ScheduleSortColumn QueryParams list"

datatype ('i, 's) event =
    SetSearchTerm string
  | SetCurrentPage int
  | Elapse nat
  | Settle nat "thrown + ('i PaginatedResponse \<times> 's)"

text \<open>
  The dependency list of \<open>fetchData\<close>. React compares each entry by \<open>Object.is\<close>; the
  events above never replace the \<open>statusFilters\<close> array, so comparing its content is
  comparing its identity.
\<close>

definition fetchDeps ::
  "(ScheduleSortColumn, 'i, 's) statusHook
     \<Rightarrow> string \<times> string list \<times> ScheduleSortColumn option \<times> SortDirection \<times> int \<times> int" where
  "fetchDeps h =
     (debouncedSearchTerm h, statusFilters h, sortBy h, sortOrder h, currentPage h,
      itemsPerPage h)"

text \<open>
  The start of \<open>fetchData\<close>, called by the effect on \<open>[fetchData]\<close>: the request goes out
  with the parameters of the current cells.
\<close>

definition fetchData :: "('i, 's) runtime \<Rightarrow> ('i, 's) runtime" where
  "fetchData rt =
     rt\<lparr> hook := fetchData_begin (hook rt),
         issued := issued rt @ [queryParams (hook rt)],
         inflight := inflight rt @ [queryParams (hook rt)] \<rparr>"

text \<open>
  The two effects, in the order the hook declares them, after a render that followed
  the cells \<open>prior\<close>: the debounce effect on \<open>[searchTerm]\<close> clears the pending timer and
  sets one of 300 ms; the fetch effect runs when \<open>fetchData\<close> is a new callback.
\<close>

definition runEffects ::
  "(ScheduleSortColumn, 'i, 's) statusHook \<Rightarrow> ('i, 's) runtime \<Rightarrow> ('i, 's) runtime" where
  "runEffects prior rt =
     (let rt1 = (if searchTerm (hook rt) \<noteq> searchTerm prior
                 then rt\<lparr> searchTimeout := Some (300, searchTerm (hook rt)) \<rparr> else rt)
      in if fetchDeps (hook rt1) \<noteq> fetchDeps prior then fetchData rt1 else rt1)"

text \<open>The first render, on the initial cells: both effects run.\<close>

definition mount :: "(ScheduleSortColumn, 'i, 's) statusHook \<Rightarrow> ('i, 's) runtime" where
  "mount h =
     fetchData \<lparr> hook = h, searchTimeout = Some (300, searchTerm h),
                 issued = [], inflight = [] \<rparr>"

fun step :: "('i, 's) event \<Rightarrow> ('i, 's) runtime \<Rightarrow> ('i, 's) runtime" where
  "step (SetSearchTerm term) rt =
     runEffects (hook rt) (rt\<lparr> hook := setSearchTerm term (hook rt) \<rparr>)"
| "step (SetCurrentPage page) rt =
     runEffects (hook rt) (rt\<lparr> hook := setCurrentPage page (hook rt) \<rparr>)"
| "step (Elapse ms) rt =
     (case searchTimeout rt of
        None \<Rightarrow> rt
      | Some (remaining, term) \<Rightarrow>
          if ms < remaining then rt\<lparr> searchTimeout := Some (remaining - ms, term) \<rparr>
          else runEffects (hook rt)
                 (rt\<lparr> searchTimeout := None,
                     hook := (hook rt)\<lparr> debouncedSearchTerm := term \<rparr> \<rparr>))"
| "step (Settle k outcome) rt =
     (if k < length (inflight rt)
      then rt\<lparr> hook := fetchData_settle_schedules outcome (hook rt),
               inflight := take k (inflight rt) @ drop (Suc k) (inflight rt) \<rparr>
      else rt)"

fun run :: "('i, 's) event list \<Rightarrow> ('i, 's) runtime \<Rightarrow> ('i, 's) runtime" where
  "run [] rt = rt"
| "run (e # es) rt = run es (step e rt)"

text \<open>
  A burst of typing: calls of \<open>setSearchTerm\<close>, each followed by the milliseconds until
  the next event. In a burst every call changes the term, as a text input's change
  handler does, and less than the debounce interval passes after each call.
\<close>

fun keystrokes :: "(string \<times> nat) list \<Rightarrow> ('i, 's) event list" where
  "keystrokes [] = []"
| "keystrokes ((term, ms) # ks) = SetSearchTerm term # Elapse ms # keystrokes ks"

fun isBurst :: "string \<Rightarrow> (string \<times> nat) list \<Rightarrow> bool" where
  "isBurst current [] = True"
| "isBurst current ((term, ms) # ks) = (term \<noteq> current \<and> ms < 300 \<and> isBurst term ks)"


section \<open>Summary aggregation (DashboardScreen)\<close>

text \<open>
  The data of \<open>useFleetData\<close> as \<open>DashboardScreen\<close> reads it. A field that may be
  \<open>undefined\<close> is an option. Costs are JavaScript numbers; the screen adds them, and
  they are integers here.
\<close>

record Vehicle =
  name :: string
  licensePlate :: "string option"
  status :: string
  maintenanceCost :: "int option"

record VehicleStatusCounts =
  active :: int
  maintenance :: int
  idle :: int

record FleetSummary =
  totalVehicles :: "int option"
  totalDrivers :: "int option"
  activeVehiclesCount :: "int option"
  totalMaintenanceCost :: "int option"
  vehicleStatusCounts :: "VehicleStatusCounts option"
  highestMaintenanceCostVehicle :: "Vehicle option"
  lowestMaintenanceCostVehicle :: "Vehicle option"

record 'd FleetData =
  vehicles :: "Vehicle list"
  drivers :: "'d list"
  fleetSummary :: "FleetSummary option"

text \<open>\<open>summary?.field ?? fallback\<close>.\<close>

definition orElse :: "'s option \<Rightarrow> ('s \<Rightarrow> 'a option) \<Rightarrow> 'a \<Rightarrow> 'a" where
  "orElse s field fallback =
     (case s of None \<Rightarrow> fallback
      | Some r \<Rightarrow> (case field r of None \<Rightarrow> fallback | Some v \<Rightarrow> v))"

definition countStatus :: "string \<Rightarrow> Vehicle list \<Rightarrow> int" where
  "countStatus st vs = int (length (filter (\<lambda>v. status v = st) vs))"

text \<open>
  What the screen shows once the data is there: the three stat cards, the total cost,
  the status counts, and the two extremal-cost cards, which render only when the
  summary carries the vehicle (\<open>summary?.highestMaintenanceCostVehicle && ...\<close>).
\<close>

record DashboardView =
  shownTotalVehicles :: int
  shownTotalDrivers :: int
  shownActiveVehicles :: int
  shownTotalMaintenanceCost :: int
  shownVehicleStatusCounts :: VehicleStatusCounts
  shownHighestCostVehicle :: "Vehicle option"
  shownLowestCostVehicle :: "Vehicle option"

definition DashboardScreen :: "'d FleetData \<Rightarrow> DashboardView" where
  "DashboardScreen data =
     (let vs = vehicles data; s = fleetSummary data in
      \<lparr> shownTotalVehicles = orElse s totalVehicles (int (length vs)),
        shownTotalDrivers = orElse s totalDrivers (int (length (drivers data))),
        shownActiveVehicles = orElse s activeVehiclesCount (countStatus ''active'' vs),
        shownTotalMaintenanceCost =
          orElse s totalMaintenanceCost
            (foldl (\<lambda>sum v. sum + (case maintenanceCost v of None \<Rightarrow> 0 | Some c \<Rightarrow> c)) 0 vs),
        shownVehicleStatusCounts =
          orElse s vehicleStatusCounts
            \<lparr> active = countStatus ''active'' vs,
              maintenance = countStatus ''maintenance'' vs,
              idle = countStatus ''idle'' vs \<rparr>,
        shownHighestCostVehicle =
          (case s of None \<Rightarrow> None | Some r \<Rightarrow> highestMaintenanceCostVehicle r),
        shownLowestCostVehicle =
          (case s of None \<Rightarrow> None | Some r \<Rightarrow> lowestMaintenanceCostVehicle r) \<rparr>)"


section \<open>Properties of the timeline layout\<close>

subsection \<open>Calendar days and instants\<close>

lemma msPerDay_pos: "0 < msPerDay"
  by (simp add: msPerDay_def)

lemma calendarDay_le_iff: "k \<le> calendarDay d \<longleftrightarrow> k * msPerDay \<le> d"
proof
  assume "k \<le> calendarDay d"
  then have "k * msPerDay \<le> (d div msPerDay) * msPerDay"
    using msPerDay_pos by (simp add: calendarDay_def)
  also have "\<dots> \<le> d"
    using msPerDay_pos pos_mod_sign [of msPerDay d] div_mult_mod_eq [of d msPerDay]
    by linarith
  finally show "k * msPerDay \<le> d" .
next
  assume "k * msPerDay \<le> d"
  then have "(k * msPerDay) div msPerDay \<le> d div msPerDay"
    using msPerDay_pos by (rule zdiv_mono1)
  then show "k \<le> calendarDay d"
    using msPerDay_pos by (simp add: calendarDay_def)
qed

lemma calendarDay_less_iff: "calendarDay d < k \<longleftrightarrow> d < k * msPerDay"
  using calendarDay_le_iff [of k d] by linarith

lemma calendarDay_mono: "a \<le> b \<Longrightarrow> calendarDay a \<le> calendarDay b"
  using msPerDay_pos by (simp add: calendarDay_def zdiv_mono1)

lemma calendarDay_start: "calendarDay (k * msPerDay) = k"
  using msPerDay_pos by (simp add: calendarDay_def)

lemma calendarDay_end: "calendarDay (k * msPerDay + (msPerDay - 1)) = k"
proof -
  have "(msPerDay - 1) div msPerDay = 0"
    using msPerDay_pos by (simp add: div_pos_pos_trivial)
  then show ?thesis
    using msPerDay_pos by (simp add: calendarDay_def)
qed

lemma calendarDay_addDaysToDate: "calendarDay (addDaysToDate d n) = calendarDay d + n"
  using msPerDay_pos by (simp add: calendarDay_def addDaysToDate_def)

lemma parseDate_Inr:
  "parseDate str = Inr s \<Longrightarrow> \<exists>k. parseCalendarDay str = Some k \<and> s = k * msPerDay"
  by (auto simp: parseDate_def split: option.splits)

lemma parseDateEnd_Inr:
  "parseDateEnd str = Inr e \<Longrightarrow>
     \<exists>k. parseCalendarDay str = Some k \<and> e = k * msPerDay + (msPerDay - 1)"
  by (auto simp: parseDateEnd_def split: option.splits)

text \<open>The function on an item whose two dates parse, with the clipping written as
  \<open>max\<close> and \<open>min\<close>.\<close>

lemma calculateItemPosition_parsed:
  assumes "parseDate (startDate item) = Inr s" and "parseDateEnd (endDate item) = Inr e"
  shows "calculateItemPosition chartStart daysToShow item =
     (if e < chartStart \<or> s > addDaysToDate chartStart (daysToShow - 1) then Inr None
      else Inr (Some
        \<lparr> left = max 0 ((getDaysBetweenDates chartStart (max s chartStart) - 1) * DAY_WIDTH_PX),
          width = max 20 (getDaysBetweenDates (max s chartStart)
                     (min e (addDaysToDate chartStart (daysToShow - 1))) * DAY_WIDTH_PX - 2) \<rparr>))"
  using assms by (simp add: calculateItemPosition_def Let_def max_def min_def)

text \<open>
  The spec's scenario: the window of seven days from 2024-06-01 (day 19875) and an item
  from 2024-05-30 to 2024-06-02. The item is visible, clipped to the first two days of
  the window, at the left edge.
\<close>

lemma calculateItemPosition_scenario:
  "calculateItemPosition (19875 * msPerDay) 7
     \<lparr> itemId = ''s0'', vehicleId = ''v1'', startDate = ''2024-05-30'',
       endDate = ''2024-06-02'' \<rparr> = Inr (Some \<lparr> left = 0, width = 238 \<rparr>)"
  by code_simp

subsection \<open>Items outside the window\<close>

text \<open>
  Claim C1. An item whose dates parse and whose range lies outside the window gets
  \<open>null\<close>: its end-of-day end is before the window start, or its start-of-day start
  is after the window end \<open>addDaysToDate chartStart (daysToShow - 1)\<close>; the same holds
  when the range is outside by calendar days, the last day ending before the day of the
  window start or the first day coming after the window's last day.
\<close>

theorem calculateItemPosition_outside_is_null:
  assumes st: "parseDate (startDate item) = Inr s"
    and en: "parseDateEnd (endDate item) = Inr e"
    and out: "e < chartStart \<or> s > addDaysToDate chartStart (daysToShow - 1)
              \<or> calendarDay e < calendarDay chartStart
              \<or> calendarDay s > calendarDay chartStart + (daysToShow - 1)"
  shows "calculateItemPosition chartStart daysToShow item = Inr None"
proof -
  have "e < chartStart" if "calendarDay e < calendarDay chartStart"
    using that calendarDay_mono [of chartStart e] by linarith
  moreover have "s > addDaysToDate chartStart (daysToShow - 1)"
    if "calendarDay s > calendarDay chartStart + (daysToShow - 1)"
    using that calendarDay_mono [of s "addDaysToDate chartStart (daysToShow - 1)"]
      calendarDay_addDaysToDate [of chartStart "daysToShow - 1"] by linarith
  ultimately have "e < chartStart \<or> s > addDaysToDate chartStart (daysToShow - 1)"
    using out by blast
  then show ?thesis
    by (simp add: calculateItemPosition_parsed [OF st en])
qed

text \<open>
  The window of seven days from 2024-06-01 (day 19875) and an item on 2024-06-08 and
  2024-06-09, the two days after the window.
\<close>

theorem calculateItemPosition_outside_is_null_witness:
  "parseDate ''2024-06-08'' = Inr (19882 * msPerDay)
   \<and> parseDateEnd ''2024-06-09'' = Inr (19883 * msPerDay + (msPerDay - 1))
   \<and> 19882 * msPerDay > addDaysToDate (19875 * msPerDay) (7 - 1)
   \<and> calculateItemPosition (19875 * msPerDay) 7
        \<lparr> itemId = ''s1'', vehicleId = ''v1'', startDate = ''2024-06-08'',
          endDate = ''2024-06-09'' \<rparr> = Inr None"
proof -
  let ?item = "\<lparr> itemId = ''s1'', vehicleId = ''v1'', startDate = ''2024-06-08'',
                  endDate = ''2024-06-09'' \<rparr>"
  have st: "parseDate (startDate ?item) = Inr (19882 * msPerDay)"
    by code_simp
  have en: "parseDateEnd (endDate ?item) = Inr (19883 * msPerDay + (msPerDay - 1))"
    by code_simp
  have after: "19882 * msPerDay > addDaysToDate (19875 * msPerDay) (7 - 1)"
    by (simp add: addDaysToDate_def msPerDay_def)
  have "calculateItemPosition (19875 * msPerDay) 7 ?item = Inr None"
    using after by (intro calculateItemPosition_outside_is_null [OF st en]) blast
  with st en after show ?thesis by simp
qed

subsection \<open>Items inside the window\<close>

text \<open>
  Claim C2. An item whose dates parse and whose first and last day both lie among the
  days of the window, from the day of the window start to \<open>daysToShow - 1\<close> days later,
  gets a position; its bar does not start left of the chart (\<open>left \<ge> 0\<close>) and does
  not reach past the chart width (\<open>left + width \<le> daysToShow * DAY_WIDTH_PX\<close>).
\<close>

theorem calculateItemPosition_inside_within_chart:
  assumes st: "parseDate (startDate item) = Inr s"
    and en: "parseDateEnd (endDate item) = Inr e"
    and s_lo: "calendarDay chartStart \<le> calendarDay s"
    and s_hi: "calendarDay s \<le> calendarDay chartStart + (daysToShow - 1)"
    and e_lo: "calendarDay chartStart \<le> calendarDay e"
    and e_hi: "calendarDay e \<le> calendarDay chartStart + (daysToShow - 1)"
  shows "\<exists>p. calculateItemPosition chartStart daysToShow item = Inr (Some p)
             \<and> 0 \<le> left p \<and> left p + width p \<le> daysToShow * DAY_WIDTH_PX"
proof -
  define chartEnd where "chartEnd = addDaysToDate chartStart (daysToShow - 1)"
  define w where "w = calendarDay chartStart"
  obtain ks where s: "s = ks * msPerDay"
    using parseDate_Inr [OF st] by blast
  obtain ke where e: "e = ke * msPerDay + (msPerDay - 1)"
    using parseDateEnd_Inr [OF en] by blast
  have ds: "calendarDay s = ks" by (simp add: s calendarDay_start)
  have de: "calendarDay e = ke" by (simp add: e calendarDay_end)
  have dce: "calendarDay chartEnd = w + (daysToShow - 1)"
    by (simp add: chartEnd_def w_def calendarDay_addDaysToDate)
  have not_before: "\<not> e < chartStart"
  proof
    assume "e < chartStart"
    then have "(ke + 1) * msPerDay \<le> chartStart" by (simp add: e algebra_simps)
    then have "ke + 1 \<le> w" by (simp add: w_def calendarDay_le_iff)
    then show False using e_lo de w_def by linarith
  qed
  have not_after: "\<not> s > chartEnd"
  proof
    assume "s > chartEnd"
    then have "calendarDay chartEnd < ks" by (simp add: calendarDay_less_iff s)
    then show False using s_hi ds dce w_def by linarith
  qed
  have vs: "calendarDay (max s chartStart) = ks"
  proof (cases "s < chartStart")
    case True
    then have "ks \<le> w" using calendarDay_mono [of s chartStart] ds w_def by simp
    then show ?thesis using True s_lo ds w_def by (simp add: max_def)
  next
    case False
    then show ?thesis using ds by (simp add: max_def)
  qed
  have ve: "calendarDay (min e chartEnd) = ke"
  proof (cases "e > chartEnd")
    case True
    then have "calendarDay chartEnd \<le> ke" using calendarDay_mono [of chartEnd e] de by simp
    then show ?thesis using True e_hi de dce w_def by (simp add: min_def)
  next
    case False
    then show ?thesis using de by (simp add: min_def)
  qed
  define p where "p = \<lparr> left = max 0 ((ks - w) * DAY_WIDTH_PX),
                        width = max 20 ((ke - ks + 1) * DAY_WIDTH_PX - 2) \<rparr>"
  have res: "calculateItemPosition chartStart daysToShow item = Inr (Some p)"
    using not_before not_after
    by (simp add: calculateItemPosition_parsed [OF st en] chartEnd_def [symmetric]
        getDaysBetweenDates_def vs ve w_def [symmetric] p_def)
  have lo: "0 \<le> left p" by (simp add: p_def)
  have "w \<le> ks" "ks \<le> w + (daysToShow - 1)" "ke \<le> w + (daysToShow - 1)"
    using s_lo s_hi e_hi ds de w_def by simp_all
  then have hi: "left p + width p \<le> daysToShow * DAY_WIDTH_PX"
    by (simp add: p_def DAY_WIDTH_PX_def max_def)
  from res lo hi show ?thesis by blast
qed

text \<open>
  The window of seven days from 2024-06-01, opened at noon of that day, and an item
  from 2024-06-03 to the window's last day, 2024-06-07.
\<close>

theorem calculateItemPosition_inside_within_chart_witness:
  "parseDate ''2024-06-03'' = Inr (19877 * msPerDay)
   \<and> parseDateEnd ''2024-06-07'' = Inr (19881 * msPerDay + (msPerDay - 1))
   \<and> calendarDay (19875 * msPerDay + 43200000) = 19875
   \<and> (\<exists>p. calculateItemPosition (19875 * msPerDay + 43200000) 7
              \<lparr> itemId = ''s2'', vehicleId = ''v1'', startDate = ''2024-06-03'',
                endDate = ''2024-06-07'' \<rparr> = Inr (Some p)
            \<and> 0 \<le> left p \<and> left p + width p \<le> 7 * DAY_WIDTH_PX)"
proof -
  let ?item = "\<lparr> itemId = ''s2'', vehicleId = ''v1'', startDate = ''2024-06-03'',
                  endDate = ''2024-06-07'' \<rparr>"
  let ?start = "19875 * msPerDay + 43200000"
  have st: "parseDate (startDate ?item) = Inr (19877 * msPerDay)"
    by code_simp
  have en: "parseDateEnd (endDate ?item) = Inr (19881 * msPerDay + (msPerDay - 1))"
    by code_simp
  have w: "calendarDay ?start = 19875"
    by (simp add: calendarDay_def msPerDay_def)
  have ds: "calendarDay (19877 * msPerDay) = 19877"
    by (rule calendarDay_start)
  have de: "calendarDay (19881 * msPerDay + (msPerDay - 1)) = 19881"
    by (rule calendarDay_end)
  have "\<exists>p. calculateItemPosition ?start 7 ?item = Inr (Some p)
          \<and> 0 \<le> left p \<and> left p + width p \<le> 7 * DAY_WIDTH_PX"
    by (rule calculateItemPosition_inside_within_chart [OF st en];
        simp only: w ds de; simp)
  with st en w show ?thesis by simp
qed

subsection \<open>Items with a malformed date\<close>

lemma dateLess_Invalid [simp]:
  "dateLess InvalidDate d = False" "dateLess d InvalidDate = False"
  by (cases d; simp)+

text \<open>
  With the helpers of section 4.1 in the parameters and a window start that is an
  instant, the function with parameters is \<open>calculateItemPosition\<close>.
\<close>

lemma calculateItemPositionWith_spec_helpers:
  "calculateItemPositionWith parseDateThrowing parseDateEndThrowing addDaysToDateJS
       getDaysBetweenDatesJS (Instant chartStart) daysToShow item =
     (case calculateItemPosition chartStart daysToShow item of
        Inl x \<Rightarrow> Inl x
      | Inr None \<Rightarrow> Inr None
      | Inr (Some p) \<Rightarrow> Inr (Some \<lparr> leftPx = Num (left p), widthPx = Num (width p) \<rparr>))"
proof (cases "parseDate (startDate item)")
  case (Inl x)
  then show ?thesis
    by (simp add: calculateItemPositionWith_def calculateItemPosition_def parseDateThrowing_def)
next
  case s: (Inr s)
  show ?thesis
  proof (cases "parseDateEnd (endDate item)")
    case (Inl x)
    then show ?thesis using s
      by (simp add: calculateItemPositionWith_def calculateItemPosition_def
            parseDateThrowing_def parseDateEndThrowing_def)
  next
    case e: (Inr e)
    show ?thesis
      using s e
      by (simp add: calculateItemPositionWith_def calculateItemPosition_def
            parseDateThrowing_def parseDateEndThrowing_def addDaysToDateJS_def Let_def)
  qed
qed

lemma calculateItemPositionWith_start_raises:
  "pd (startDate item) = Inl x \<Longrightarrow>
      calculateItemPositionWith pd pde ad db chartStart daysToShow item = Inl x"
  by (simp add: calculateItemPositionWith_def)

lemma calculateItemPositionWith_end_raises:
  "pd (startDate item) = Inr s \<Longrightarrow> pde (endDate item) = Inl x \<Longrightarrow>
      calculateItemPositionWith pd pde ad db chartStart daysToShow item = Inl x"
  by (simp add: calculateItemPositionWith_def)

text \<open>The only \<open>null\<close> of the function is the one of its range test.\<close>

lemma calculateItemPositionWith_null_iff:
  assumes "pd (startDate item) = Inr s" and "pde (endDate item) = Inr e"
  shows "calculateItemPositionWith pd pde ad db chartStart daysToShow item = Inr None
        \<longleftrightarrow> (\<exists>chartEnd. ad chartStart (daysToShow - 1) = Inr chartEnd
               \<and> (dateLess e chartStart \<or> dateLess chartEnd s))"
proof (cases "ad chartStart (daysToShow - 1)")
  case (Inl x)
  then show ?thesis using assms by (simp add: calculateItemPositionWith_def)
next
  case (Inr chartEnd)
  show ?thesis
  proof (cases "dateLess e chartStart \<or> dateLess chartEnd s")
    case True
    then show ?thesis using assms Inr by (simp add: calculateItemPositionWith_def)
  next
    case False
    then have "calculateItemPositionWith pd pde ad db chartStart daysToShow item \<noteq> Inr None"
      using assms Inr
      by (simp add: calculateItemPositionWith_def Let_def split: sum.splits)
    then show ?thesis using False Inr by simp
  qed
qed

text \<open>
  Claim C3, as the code has it. The claim reads: an item with a malformed date gets
  \<open>null\<close>, rather than an exception or a position. The function tests no date for
  being well-formed and catches nothing, so whichever way the parser answers the
  malformed start date of this item, the result is not \<open>null\<close>: with a parser that
  throws, the exception leaves the function; with a parser that returns the Invalid
  Date, both comparisons of the range test are false and a position of \<open>NaN\<close> comes
  back.
\<close>

theorem calculateItemPositionWith_malformed_counterexample:
  "parseDateThrowing ''not-a-date'' = Inl ParseError
   \<and> calculateItemPositionWith parseDateThrowing parseDateEndThrowing addDaysToDateJS
        getDaysBetweenDatesJS (Instant (19875 * msPerDay)) 7
        \<lparr> itemId = ''s3'', vehicleId = ''v1'', startDate = ''not-a-date'',
          endDate = ''2024-06-02'' \<rparr> = Inl ParseError
   \<and> parseDateLenient ''not-a-date'' = Inr InvalidDate
   \<and> calculateItemPositionWith parseDateLenient parseDateEndLenient addDaysToDateJS
        getDaysBetweenDatesJS (Instant (19875 * msPerDay)) 7
        \<lparr> itemId = ''s3'', vehicleId = ''v1'', startDate = ''not-a-date'',
          endDate = ''2024-06-02'' \<rparr> = Inr (Some \<lparr> leftPx = NaN, widthPx = NaN \<rparr>)"
  by code_simp

text \<open>
  Claim C3, amended. \<open>calculateItemPosition\<close> does not exclude an item for a malformed
  date; for any helpers of \<open>utils/dateUtils\<close>: when the parser throws on the start date,
  or on the end date after it has returned for the start date, the exception leaves
  the function. When both parsers return, \<open>null\<close> is returned exactly when the range
  test holds (the end before the window start or the start after the window end, the
  window end computed without an exception), and a comparison with an Invalid Date is
  false. So an item with two Invalid Dates never gets \<open>null\<close>, and an item with one
  gets \<open>null\<close> only when its other, well-formed date alone puts it outside the window:
  the end before the window start, or the start after the window end.
\<close>

theorem calculateItemPositionWith_malformed:
  "(pd (startDate item) = Inl x \<longrightarrow>
      calculateItemPositionWith pd pde ad db chartStart daysToShow item = Inl x)
   \<and> (pd (startDate item) = Inr s \<and> pde (endDate item) = Inl x \<longrightarrow>
      calculateItemPositionWith pd pde ad db chartStart daysToShow item = Inl x)
   \<and> (pd (startDate item) = Inr s \<and> pde (endDate item) = Inr e \<longrightarrow>
      (calculateItemPositionWith pd pde ad db chartStart daysToShow item = Inr None
        \<longleftrightarrow> (\<exists>chartEnd. ad chartStart (daysToShow - 1) = Inr chartEnd
               \<and> (dateLess e chartStart \<or> dateLess chartEnd s))))
   \<and> (pd (startDate item) = Inr InvalidDate \<and> pde (endDate item) = Inr InvalidDate \<longrightarrow>
      calculateItemPositionWith pd pde ad db chartStart daysToShow item \<noteq> Inr None)
   \<and> (pd (startDate item) = Inr InvalidDate \<and> pde (endDate item) = Inr (Instant t) \<longrightarrow>
      (calculateItemPositionWith pd pde ad db chartStart daysToShow item = Inr None
        \<longleftrightarrow> (\<exists>chartEnd. ad chartStart (daysToShow - 1) = Inr chartEnd)
             \<and> dateLess (Instant t) chartStart))
   \<and> (pd (startDate item) = Inr (Instant t) \<and> pde (endDate item) = Inr InvalidDate \<longrightarrow>
      (calculateItemPositionWith pd pde ad db chartStart daysToShow item = Inr None
        \<longleftrightarrow> (\<exists>chartEnd. ad chartStart (daysToShow - 1) = Inr chartEnd
               \<and> dateLess chartEnd (Instant t))))"
proof (intro conjI impI)
  show "calculateItemPositionWith pd pde ad db chartStart daysToShow item = Inl x"
    if "pd (startDate item) = Inl x"
    using that by (rule calculateItemPositionWith_start_raises)
  show "calculateItemPositionWith pd pde ad db chartStart daysToShow item = Inl x"
    if "pd (startDate item) = Inr s \<and> pde (endDate item) = Inl x"
    using that by (simp add: calculateItemPositionWith_end_raises)
  show "calculateItemPositionWith pd pde ad db chartStart daysToShow item = Inr None
        \<longleftrightarrow> (\<exists>chartEnd. ad chartStart (daysToShow - 1) = Inr chartEnd
               \<and> (dateLess e chartStart \<or> dateLess chartEnd s))"
    if "pd (startDate item) = Inr s \<and> pde (endDate item) = Inr e"
    using that by (simp add: calculateItemPositionWith_null_iff)
  show "calculateItemPositionWith pd pde ad db chartStart daysToShow item \<noteq> Inr None"
    if "pd (startDate item) = Inr InvalidDate \<and> pde (endDate item) = Inr InvalidDate"
    using that by (simp add: calculateItemPositionWith_null_iff)
  show "calculateItemPositionWith pd pde ad db chartStart daysToShow item = Inr None
        \<longleftrightarrow> (\<exists>chartEnd. ad chartStart (daysToShow - 1) = Inr chartEnd)
             \<and> dateLess (Instant t) chartStart"
    if "pd (startDate item) = Inr InvalidDate \<and> pde (endDate item) = Inr (Instant t)"
    using that by (simp add: calculateItemPositionWith_null_iff)
  show "calculateItemPositionWith pd pde ad db chartStart daysToShow item = Inr None
        \<longleftrightarrow> (\<exists>chartEnd. ad chartStart (daysToShow - 1) = Inr chartEnd
               \<and> dateLess chartEnd (Instant t))"
    if "pd (startDate item) = Inr (Instant t) \<and> pde (endDate item) = Inr InvalidDate"
    using that by (simp add: calculateItemPositionWith_null_iff)
qed

text \<open>
  The window of seven days from 2024-06-01. With the parser that throws, an item whose
  end date names the 30th of February raises. With the parser that returns the Invalid
  Date, an item with two malformed dates gets no \<open>null\<close>, and an item with a malformed
  start date gets \<open>null\<close> when its end, 2024-05-20, is before the window.
\<close>

theorem calculateItemPositionWith_malformed_witness:
  "parseDateEndThrowing ''2024-02-30'' = Inl ParseError
   \<and> calculateItemPositionWith parseDateThrowing parseDateEndThrowing addDaysToDateJS
        getDaysBetweenDatesJS (Instant (19875 * msPerDay)) 7
        \<lparr> itemId = ''s4'', vehicleId = ''v2'', startDate = ''2024-02-27'',
          endDate = ''2024-02-30'' \<rparr> = Inl ParseError
   \<and> parseDateLenient ''soon'' = Inr InvalidDate
   \<and> parseDateEndLenient ''later'' = Inr InvalidDate
   \<and> calculateItemPositionWith parseDateLenient parseDateEndLenient addDaysToDateJS
        getDaysBetweenDatesJS (Instant (19875 * msPerDay)) 7
        \<lparr> itemId = ''s5'', vehicleId = ''v2'', startDate = ''soon'',
          endDate = ''later'' \<rparr> \<noteq> Inr None
   \<and> calculateItemPositionWith parseDateLenient parseDateEndLenient addDaysToDateJS
        getDaysBetweenDatesJS (Instant (19875 * msPerDay)) 7
        \<lparr> itemId = ''s6'', vehicleId = ''v2'', startDate = ''soon'',
          endDate = ''2024-05-20'' \<rparr> = Inr None"
proof -
  let ?feb = "\<lparr> itemId = ''s4'', vehicleId = ''v2'', startDate = ''2024-02-27'',
                 endDate = ''2024-02-30'' \<rparr>"
  let ?both = "\<lparr> itemId = ''s5'', vehicleId = ''v2'', startDate = ''soon'',
                  endDate = ''later'' \<rparr>"
  let ?one = "\<lparr> itemId = ''s6'', vehicleId = ''v2'', startDate = ''soon'',
                 endDate = ''2024-05-20'' \<rparr>"
  let ?start = "Instant (19875 * msPerDay)"
  have feb_s: "parseDateThrowing (startDate ?feb) = Inr (Instant (19780 * msPerDay))"
    by code_simp
  have feb_e: "parseDateEndThrowing (endDate ?feb) = Inl ParseError"
    by code_simp
  have soon: "parseDateLenient ''soon'' = Inr InvalidDate"
    by code_simp
  have later: "parseDateEndLenient ''later'' = Inr InvalidDate"
    by code_simp
  have may: "parseDateEndLenient ''2024-05-20'' = Inr (Instant (19863 * msPerDay + (msPerDay - 1)))"
    by code_simp
  have chartEnd: "addDaysToDateJS ?start (7 - 1) = Inr (Instant (addDaysToDate (19875 * msPerDay) 6))"
    by (simp add: addDaysToDateJS_def)
  have before: "dateLess (Instant (19863 * msPerDay + (msPerDay - 1))) ?start"
    by (simp add: msPerDay_def)
  have raises: "calculateItemPositionWith parseDateThrowing parseDateEndThrowing
      addDaysToDateJS getDaysBetweenDatesJS ?start 7 ?feb = Inl ParseError"
    using calculateItemPositionWith_malformed
      [where pd = parseDateThrowing and pde = parseDateEndThrowing and item = ?feb
         and s = "Instant (19780 * msPerDay)" and x = ParseError]
      feb_s feb_e by blast
  have kept: "calculateItemPositionWith parseDateLenient parseDateEndLenient
      addDaysToDateJS getDaysBetweenDatesJS ?start 7 ?both \<noteq> Inr None"
    using calculateItemPositionWith_malformed
      [where pd = parseDateLenient and pde = parseDateEndLenient and item = ?both]
      soon later by simp
  have dropped: "calculateItemPositionWith parseDateLenient parseDateEndLenient
      addDaysToDateJS getDaysBetweenDatesJS ?start 7 ?one = Inr None"
    using calculateItemPositionWith_malformed
      [where pd = parseDateLenient and pde = parseDateEndLenient and item = ?one
         and ad = addDaysToDateJS and chartStart = ?start and daysToShow = 7
         and t = "19863 * msPerDay + (msPerDay - 1)"]
      soon may chartEnd before by simp
  from feb_e raises soon later kept dropped show ?thesis
    by simp
qed


section \<open>Properties of the list query state\<close>

subsection \<open>Setting the page\<close>

text \<open>
  Claim C4, as the code has it. The claim reads: \<open>setCurrentPage\<close> with a page below 1
  or above \<open>totalPages\<close> changes nothing. The hook's \<open>setCurrentPage\<close> stores what it
  is given. Here the hook of the schedules page has fetched three pages and shows
  the first:
\<close>

theorem setCurrentPage_out_of_range_counterexample:
  "totalPages ((useVehicleSchedulesData_initial :: (ScheduleSortColumn, string, nat) statusHook)
       \<lparr> items := [''s1''], totalCount := 14, totalPages := 3, hasNextPage := True \<rparr>) = 3
   \<and> currentPage ((useVehicleSchedulesData_initial :: (ScheduleSortColumn, string, nat) statusHook)
       \<lparr> items := [''s1''], totalCount := 14, totalPages := 3, hasNextPage := True \<rparr>) = 1
   \<and> currentPage (setCurrentPage 7
        ((useVehicleSchedulesData_initial :: (ScheduleSortColumn, string, nat) statusHook)
       \<lparr> items := [''s1''], totalCount := 14, totalPages := 3, hasNextPage := True \<rparr>)) = 7
   \<and> currentPage (setCurrentPage 0
        ((useVehicleSchedulesData_initial :: (ScheduleSortColumn, string, nat) statusHook)
       \<lparr> items := [''s1''], totalCount := 14, totalPages := 3, hasNextPage := True \<rparr>)) = 0"
  by (simp add: setCurrentPage_def useVehicleSchedulesData_initial_def)

text \<open>
  Claim C4, amended. The range check is in the table components: \<open>handlePageChange\<close> of
  \<open>VehicleTable\<close> and \<open>DriverTable\<close>, given the hook's \<open>totalPages\<close> and
  \<open>setCurrentPage\<close>, leaves the whole state unchanged for a page below 1 or above
  \<open>totalPages\<close>, and sets the page, and nothing else, for a page in range. The hook's
  own \<open>setCurrentPage\<close> sets the page it is given, whatever it is, and nothing else.
\<close>

theorem handlePageChange_rejects_out_of_range:
  "(page < 1 \<or> page > totalPages h \<longrightarrow>
      handlePageChange (totalPages h) setCurrentPage page h = h)
   \<and> (1 \<le> page \<and> page \<le> totalPages h \<longrightarrow>
      handlePageChange (totalPages h) setCurrentPage page h = h\<lparr> currentPage := page \<rparr>)
   \<and> setCurrentPage page h = h\<lparr> currentPage := page \<rparr>"
  by (auto simp: handlePageChange_def setCurrentPage_def)

text \<open>The drivers table on the first of three pages, asked for pages 7, 0 and 2.\<close>

theorem handlePageChange_rejects_out_of_range_witness:
  "handlePageChange 3 setCurrentPage 7
      ((useDriversData_initial :: (DriverSortColumn, string) driversHook)
         \<lparr> items := [''d1''], totalCount := 21, totalPages := 3, hasNextPage := True \<rparr>)
     = (useDriversData_initial :: (DriverSortColumn, string) driversHook)
         \<lparr> items := [''d1''], totalCount := 21, totalPages := 3, hasNextPage := True \<rparr>
   \<and> handlePageChange 3 setCurrentPage 0
      ((useDriversData_initial :: (DriverSortColumn, string) driversHook)
         \<lparr> items := [''d1''], totalCount := 21, totalPages := 3, hasNextPage := True \<rparr>)
     = (useDriversData_initial :: (DriverSortColumn, string) driversHook)
         \<lparr> items := [''d1''], totalCount := 21, totalPages := 3, hasNextPage := True \<rparr>
   \<and> currentPage (handlePageChange 3 setCurrentPage 2
      ((useDriversData_initial :: (DriverSortColumn, string) driversHook)
         \<lparr> items := [''d1''], totalCount := 21, totalPages := 3, hasNextPage := True \<rparr>)) = 2"
proof -
  let ?h = "(useDriversData_initial :: (DriverSortColumn, string) driversHook)
         \<lparr> items := [''d1''], totalCount := 21, totalPages := 3, hasNextPage := True \<rparr>"
  have tp: "totalPages ?h = 3" by simp
  show ?thesis
    using handlePageChange_rejects_out_of_range [of 7 ?h]
      handlePageChange_rejects_out_of_range [of 0 ?h]
      handlePageChange_rejects_out_of_range [of 2 ?h]
    by (simp add: tp)
qed

subsection \<open>Toggling a status filter\<close>

text \<open>
  Claim C6. Toggling the same status twice gives back the filters as a set. The page
  is 1 after the first toggle and 1 after the second; apart from the order of the
  filter list, the state after the two toggles is the state before them with page 1.
\<close>

theorem toggleStatusFilter_twice:
  "set (statusFilters (toggleStatusFilter v (toggleStatusFilter v h))) = set (statusFilters h)
   \<and> currentPage (toggleStatusFilter v h) = 1
   \<and> currentPage (toggleStatusFilter v (toggleStatusFilter v h)) = 1
   \<and> (toggleStatusFilter v (toggleStatusFilter v h))\<lparr> statusFilters := statusFilters h \<rparr>
       = h\<lparr> currentPage := 1 \<rparr>"
  by (auto simp: toggleStatusFilter_def Let_def)

text \<open>
  The schedules hook on page 4 with its initial filters: toggling \<open>active\<close> twice
  moves it to the end of the list.
\<close>

theorem toggleStatusFilter_twice_witness:
  "statusFilters (toggleStatusFilter ''active'' (toggleStatusFilter ''active''
      ((useVehicleSchedulesData_initial :: (ScheduleSortColumn, string, nat) statusHook)
         \<lparr> currentPage := 4 \<rparr>))) = [''scheduled'', ''active'']
   \<and> set [''scheduled'', ''active'']
       = set (statusFilters
           (useVehicleSchedulesData_initial :: (ScheduleSortColumn, string, nat) statusHook))
   \<and> currentPage (toggleStatusFilter ''active'' (toggleStatusFilter ''active''
      ((useVehicleSchedulesData_initial :: (ScheduleSortColumn, string, nat) statusHook)
         \<lparr> currentPage := 4 \<rparr>))) = 1"
proof -
  let ?h = "(useVehicleSchedulesData_initial :: (ScheduleSortColumn, string, nat) statusHook)
         \<lparr> currentPage := 4 \<rparr>"
  have l: "statusFilters (toggleStatusFilter ''active'' (toggleStatusFilter ''active'' ?h))
        = [''scheduled'', ''active'']"
    by (simp add: toggleStatusFilter_def useVehicleSchedulesData_initial_def)
  show ?thesis
    using toggleStatusFilter_twice [of "''active''" ?h] l
    by (simp add: useVehicleSchedulesData_initial_def)
qed

subsection \<open>Clearing all filters\<close>

text \<open>
  On the initial cells, clearing changes nothing for schedules and drivers; for
  maintenance orders it empties the filters, which start with three statuses.
\<close>

lemma clearAllFilters_schedules_initial:
  "clearAllFilters_schedules useVehicleSchedulesData_initial = useVehicleSchedulesData_initial"
  by (simp add: clearAllFilters_schedules_def useVehicleSchedulesData_initial_def)

lemma clearAllFilters_drivers_initial:
  "clearAllFilters_drivers useDriversData_initial = useDriversData_initial"
  by (simp add: clearAllFilters_drivers_def useDriversData_initial_def)

lemma clearAllFilters_orders_initial:
  "clearAllFilters_orders useMaintenanceOrdersData_initial
     = useMaintenanceOrdersData_initial\<lparr> statusFilters := [] \<rparr>"
  by (simp add: clearAllFilters_orders_def useMaintenanceOrdersData_initial_def)

text \<open>
  Claim C7. From any state, \<open>clearAllFilters\<close> sets the search term, the sort and the
  page to the values the hook starts with. The status filters become active and
  scheduled on the schedules page, not the empty set, and the empty set on the
  maintenance orders page. The drivers hook has no status filter; its second search
  term is emptied too.
\<close>

theorem clearAllFilters_restores_defaults:
  "searchTerm (clearAllFilters_schedules h) = ''''
   \<and> set (statusFilters (clearAllFilters_schedules h)) = {''active'', ''scheduled''}
   \<and> statusFilters (clearAllFilters_schedules h) \<noteq> []
   \<and> sortBy (clearAllFilters_schedules h) = Some vs_startDate
   \<and> sortOrder (clearAllFilters_schedules h) = desc
   \<and> currentPage (clearAllFilters_schedules h) = 1
   \<and> searchTerm (clearAllFilters_orders g) = ''''
   \<and> set (statusFilters (clearAllFilters_orders g)) = {}
   \<and> sortBy (clearAllFilters_orders g) = Some mo_startDate
   \<and> sortOrder (clearAllFilters_orders g) = desc
   \<and> currentPage (clearAllFilters_orders g) = 1
   \<and> searchTerm (clearAllFilters_drivers d) = ''''
   \<and> emailSearchTerm (clearAllFilters_drivers d) = ''''
   \<and> sortBy (clearAllFilters_drivers d) = None
   \<and> sortOrder (clearAllFilters_drivers d) = asc
   \<and> currentPage (clearAllFilters_drivers d) = 1"
  by (simp add: clearAllFilters_schedules_def clearAllFilters_orders_def
        clearAllFilters_drivers_def)

text \<open>
  The schedules hook searching for \<open>van\<close> among completed schedules, sorted by
  driver, on page 3; the other two hooks as they start.
\<close>

theorem clearAllFilters_restores_defaults_witness:
  "clearAllFilters_schedules
      ((useVehicleSchedulesData_initial :: (ScheduleSortColumn, string, nat) statusHook)
         \<lparr> searchTerm := ''van'', sortBy := Some vs_driverName, sortOrder := asc,
            currentPage := 3, statusFilters := [''completed''] \<rparr>)
     = (useVehicleSchedulesData_initial :: (ScheduleSortColumn, string, nat) statusHook)
   \<and> statusFilters (clearAllFilters_orders
        (useMaintenanceOrdersData_initial :: (OrderSortColumn, string, nat) statusHook)) = []
   \<and> currentPage (clearAllFilters_drivers
        (useDriversData_initial :: (DriverSortColumn, string) driversHook)) = 1"
proof -
  let ?h = "(useVehicleSchedulesData_initial :: (ScheduleSortColumn, string, nat) statusHook)
         \<lparr> searchTerm := ''van'', sortBy := Some vs_driverName, sortOrder := asc,
            currentPage := 3, statusFilters := [''completed''] \<rparr>"
  let ?g = "useMaintenanceOrdersData_initial :: (OrderSortColumn, string, nat) statusHook"
  let ?d = "useDriversData_initial :: (DriverSortColumn, string) driversHook"
  have same: "clearAllFilters_schedules ?h = useVehicleSchedulesData_initial"
    by (simp add: clearAllFilters_schedules_def useVehicleSchedulesData_initial_def)
  show ?thesis
    using clearAllFilters_restores_defaults [of ?h ?g ?d] same by simp
qed

subsection \<open>A rejected fetch\<close>

text \<open>
  Claim C10. When the fetch rejects, each of the three hooks sets the error message
  (the message of the error, or the hook's fallback text) and, in the same transition,
  empties the result: no items, counts 0, no next or previous page, and no summary in
  the two hooks that have one.
\<close>

theorem fetchData_rejected_resets_result:
  "error (fetchData_settle_schedules (Inl err) h)
       = Some (errorMessage ''Failed to fetch vehicle schedules'' err)
   \<and> items (fetchData_settle_schedules (Inl err) h) = []
   \<and> totalCount (fetchData_settle_schedules (Inl err) h) = 0
   \<and> totalPages (fetchData_settle_schedules (Inl err) h) = 0
   \<and> hasNextPage (fetchData_settle_schedules (Inl err) h) = False
   \<and> hasPreviousPage (fetchData_settle_schedules (Inl err) h) = False
   \<and> summary (fetchData_settle_schedules (Inl err) h) = None
   \<and> error (fetchData_settle_orders (Inl err) g)
       = Some (errorMessage ''Failed to fetch maintenance orders'' err)
   \<and> items (fetchData_settle_orders (Inl err) g) = []
   \<and> totalCount (fetchData_settle_orders (Inl err) g) = 0
   \<and> totalPages (fetchData_settle_orders (Inl err) g) = 0
   \<and> hasNextPage (fetchData_settle_orders (Inl err) g) = False
   \<and> hasPreviousPage (fetchData_settle_orders (Inl err) g) = False
   \<and> summary (fetchData_settle_orders (Inl err) g) = None
   \<and> error (fetchData_settle_drivers (Inl err) d)
       = Some (errorMessage ''Failed to fetch drivers'' err)
   \<and> items (fetchData_settle_drivers (Inl err) d) = []
   \<and> totalCount (fetchData_settle_drivers (Inl err) d) = 0
   \<and> totalPages (fetchData_settle_drivers (Inl err) d) = 0
   \<and> hasNextPage (fetchData_settle_drivers (Inl err) d) = False
   \<and> hasPreviousPage (fetchData_settle_drivers (Inl err) d) = False"
  by (simp add: fetchData_settle_schedules_def fetchData_settle_orders_def
        fetchData_settle_status_def fetchData_settle_drivers_def)

text \<open>
  The schedules hook showing two rows of the first of two pages, with a summary, when
  a request fails with a network error; the other two hooks as they start.
\<close>

theorem fetchData_rejected_resets_result_witness:
  "fetchData_settle_schedules (Inl (Error ''Network request failed''))
      ((useVehicleSchedulesData_initial :: (ScheduleSortColumn, string, nat) statusHook)
         \<lparr> items := [''s1'', ''s2''], totalCount := 8, totalPages := 2, hasNextPage := True,
            loading := True, summary := Some 8 \<rparr>)
     = (useVehicleSchedulesData_initial :: (ScheduleSortColumn, string, nat) statusHook)
         \<lparr> error := Some ''Network request failed'' \<rparr>
   \<and> error (fetchData_settle_orders (Inl NotAnError)
        (useMaintenanceOrdersData_initial :: (OrderSortColumn, string, nat) statusHook))
     = Some ''Failed to fetch maintenance orders''
   \<and> items (fetchData_settle_drivers (Inl NotAnError)
        (useDriversData_initial :: (DriverSortColumn, string) driversHook)) = []"
proof -
  let ?h = "(useVehicleSchedulesData_initial :: (ScheduleSortColumn, string, nat) statusHook)
         \<lparr> items := [''s1'', ''s2''], totalCount := 8, totalPages := 2, hasNextPage := True,
            loading := True, summary := Some 8 \<rparr>"
  let ?g = "useMaintenanceOrdersData_initial :: (OrderSortColumn, string, nat) statusHook"
  let ?d = "useDriversData_initial :: (DriverSortColumn, string) driversHook"
  have whole: "fetchData_settle_schedules (Inl (Error ''Network request failed'')) ?h
      = (useVehicleSchedulesData_initial :: (ScheduleSortColumn, string, nat) statusHook)
          \<lparr> error := Some ''Network request failed'' \<rparr>"
    by (simp add: fetchData_settle_schedules_def fetchData_settle_status_def errorMessage_def
          useVehicleSchedulesData_initial_def)
  show ?thesis
    using fetchData_rejected_resets_result [of NotAnError ?h ?g ?d] whole
    by (simp add: errorMessage_def)
qed


section \<open>Properties of the schedules hook at run time\<close>

subsection \<open>The model of time\<close>

lemma runEffects_searchTimeout_same:
  "searchTerm (hook rt) = searchTerm prior \<Longrightarrow>
     searchTimeout (runEffects prior rt) = searchTimeout rt"
  by (simp add: runEffects_def Let_def fetchData_def)

text \<open>Letting time pass in two parts is letting it pass at once.\<close>

lemma Elapse_additive: "step (Elapse b) (step (Elapse a) rt) = step (Elapse (a + b)) rt"
proof (cases "searchTimeout rt")
  case None
  then show ?thesis by simp
next
  case (Some p)
  obtain r t where p: "p = (r, t)" by (cases p)
  show ?thesis
  proof (cases "a < r")
    case True
    then show ?thesis using Some p by (cases "b < r - a") auto
  next
    case False
    let ?fired = "runEffects (hook rt)
                    (rt\<lparr> searchTimeout := None,
                        hook := (hook rt)\<lparr> debouncedSearchTerm := t \<rparr> \<rparr>)"
    have "searchTimeout ?fired = None"
      by (simp add: runEffects_searchTimeout_same)
    then have "step (Elapse b) ?fired = ?fired" by simp
    then show ?thesis using False Some p by simp
  qed
qed

subsection \<open>Responses that arrive late\<close>

text \<open>
  Claim C8, as the code has it. The claim reads: a response whose request parameters
  are no longer those of the query state is discarded. \<open>fetchData\<close> keeps no trace of
  which request a response answers, and applies each one. After mounting, the user
  goes to page 2; the response for page 2 arrives first and is shown; then the response
  to the first request, for page 1, arrives and replaces it, while the query state
  still asks for page 2.
\<close>

theorem stale_response_applied_counterexample:
  "items (hook (run
       [SetCurrentPage 2,
        Settle 1 (Inr (\<lparr> r_items = [''row-of-page-2''], r_totalCount = 7, r_totalPages = 2,
                          r_hasNextPage = False, r_hasPreviousPage = True \<rparr>, 7))]
       (mount useVehicleSchedulesData_initial :: (string, nat) runtime)))
     = [''row-of-page-2'']
   \<and> map qp_page (inflight (run
       [SetCurrentPage 2,
        Settle 1 (Inr (\<lparr> r_items = [''row-of-page-2''], r_totalCount = 7, r_totalPages = 2,
                          r_hasNextPage = False, r_hasPreviousPage = True \<rparr>, 7))]
       (mount useVehicleSchedulesData_initial :: (string, nat) runtime))) = [1]
   \<and> items (hook (run
       [SetCurrentPage 2,
        Settle 1 (Inr (\<lparr> r_items = [''row-of-page-2''], r_totalCount = 7, r_totalPages = 2,
                          r_hasNextPage = False, r_hasPreviousPage = True \<rparr>, 7)),
        Settle 0 (Inr (\<lparr> r_items = [''row-of-page-1''], r_totalCount = 7, r_totalPages = 2,
                          r_hasNextPage = True, r_hasPreviousPage = False \<rparr>, 7))]
       (mount useVehicleSchedulesData_initial :: (string, nat) runtime)))
     = [''row-of-page-1'']
   \<and> qp_page (queryParams (hook (run
       [SetCurrentPage 2,
        Settle 1 (Inr (\<lparr> r_items = [''row-of-page-2''], r_totalCount = 7, r_totalPages = 2,
                          r_hasNextPage = False, r_hasPreviousPage = True \<rparr>, 7)),
        Settle 0 (Inr (\<lparr> r_items = [''row-of-page-1''], r_totalCount = 7, r_totalPages = 2,
                          r_hasNextPage = True, r_hasPreviousPage = False \<rparr>, 7))]
       (mount useVehicleSchedulesData_initial :: (string, nat) runtime)))) = 2"
  by code_simp

text \<open>
  Claim C8, amended. Every response is applied when it arrives, whether or not the
  parameters of its request are those of the current query state: the answer to any
  request in flight replaces the visible items, the totals, the page flags and the
  summary with its own, and leaves the query state as it is. Of two requests in
  flight, the one answered last decides what is shown.
\<close>

theorem settle_applies_any_response:
  assumes "k < length (inflight rt)"
  shows "items (hook (step (Settle k (Inr (response, summaryResponse))) rt)) = r_items response
   \<and> totalCount (hook (step (Settle k (Inr (response, summaryResponse))) rt))
        = r_totalCount response
   \<and> totalPages (hook (step (Settle k (Inr (response, summaryResponse))) rt))
        = r_totalPages response
   \<and> hasNextPage (hook (step (Settle k (Inr (response, summaryResponse))) rt))
        = r_hasNextPage response
   \<and> hasPreviousPage (hook (step (Settle k (Inr (response, summaryResponse))) rt))
        = r_hasPreviousPage response
   \<and> summary (hook (step (Settle k (Inr (response, summaryResponse))) rt))
        = Some summaryResponse
   \<and> queryParams (hook (step (Settle k (Inr (response, summaryResponse))) rt))
        = queryParams (hook rt)
   \<and> inflight (step (Settle k (Inr (response, summaryResponse))) rt)
        = take k (inflight rt) @ drop (Suc k) (inflight rt)"
  using assms
  by (simp add: fetchData_settle_schedules_def fetchData_settle_status_def queryParams_def)

text \<open>
  After mounting and going to page 2, two requests are in flight; the answer to the
  first one, sent for page 1, is applied although the query state asks for page 2.
\<close>

theorem settle_applies_any_response_witness:
  "map qp_page (inflight (run [SetCurrentPage 2]
       (mount useVehicleSchedulesData_initial :: (string, nat) runtime))) = [1, 2]
   \<and> qp_page (queryParams (hook (run [SetCurrentPage 2]
       (mount useVehicleSchedulesData_initial :: (string, nat) runtime)))) = 2
   \<and> items (hook (step
        (Settle 0 (Inr (\<lparr> r_items = [''row-of-page-1''], r_totalCount = 7, r_totalPages = 2,
                          r_hasNextPage = True, r_hasPreviousPage = False \<rparr>, 7)))
        (run [SetCurrentPage 2]
          (mount useVehicleSchedulesData_initial :: (string, nat) runtime))))
     = [''row-of-page-1'']"
proof -
  define rt where
    "rt = run [SetCurrentPage 2] (mount useVehicleSchedulesData_initial :: (string, nat) runtime)"
  define response where
    "response = \<lparr> r_items = [''row-of-page-1''], r_totalCount = 7, r_totalPages = 2,
                   r_hasNextPage = True, r_hasPreviousPage = False \<rparr>"
  have pages: "map qp_page (inflight rt) = [1, 2]"
    unfolding rt_def by code_simp
  have asked: "qp_page (queryParams (hook rt)) = 2"
    unfolding rt_def by code_simp
  have "length (map qp_page (inflight rt)) = 2"
    by (simp only: pages) simp
  then have k: "0 < length (inflight rt)" by simp
  have "items (hook (step (Settle 0 (Inr (response, 7))) rt)) = r_items response"
    using settle_applies_any_response [OF k, of response 7] by blast
  then have shown: "items (hook (step (Settle 0 (Inr (response, 7))) rt)) = [''row-of-page-1'']"
    by (simp add: response_def)
  from pages asked shown show ?thesis
    unfolding rt_def response_def by blast
qed

subsection \<open>The debounced search term\<close>

lemma fetchDeps_page_reset:
  "fetchDeps h = fetchDeps h' \<Longrightarrow>
     fetchDeps (h\<lparr> currentPage := 1 \<rparr>) = fetchDeps (h'\<lparr> currentPage := 1 \<rparr>)"
  by (simp add: fetchDeps_def)

lemma queryParams_fetchDeps:
  "fetchDeps h = fetchDeps h' \<Longrightarrow>
     queryParams (h\<lparr> debouncedSearchTerm := t \<rparr>) = queryParams (h'\<lparr> debouncedSearchTerm := t \<rparr>)"
  by (simp add: fetchDeps_def queryParams_def)

lemma setSearchTerm_now:
  "currentPage (hook (step (SetSearchTerm t) rt)) = 1
   \<and> debouncedSearchTerm (hook (step (SetSearchTerm t) rt)) = debouncedSearchTerm (hook rt)
   \<and> issued (step (SetSearchTerm t) rt)
        = issued rt @ (if currentPage (hook rt) = 1 then []
                       else [queryParams ((hook rt)\<lparr> currentPage := 1 \<rparr>)])"
  by (simp add: runEffects_def Let_def setSearchTerm_def fetchData_def fetchData_begin_def
        fetchDeps_def queryParams_def)

text \<open>
  One keystroke: a call that changes the term, and less than 300 ms after it. The
  timer is restarted for the new term; the only request it can cause is the one for
  page 1, with the parameters as they were.
\<close>

lemma keystroke:
  assumes "t \<noteq> searchTerm (hook rt)" and "d < 300"
  shows "searchTerm (hook (step (Elapse d) (step (SetSearchTerm t) rt))) = t"
    and "searchTimeout (step (Elapse d) (step (SetSearchTerm t) rt)) = Some (300 - d, t)"
    and "fetchDeps (hook (step (Elapse d) (step (SetSearchTerm t) rt)))
           = fetchDeps ((hook rt)\<lparr> currentPage := 1 \<rparr>)"
    and "issued (step (Elapse d) (step (SetSearchTerm t) rt))
           = issued rt @ (if currentPage (hook rt) = 1 then []
                          else [queryParams ((hook rt)\<lparr> currentPage := 1 \<rparr>)])"
  using assms
  by (simp_all add: runEffects_def Let_def setSearchTerm_def fetchData_def fetchData_begin_def
        fetchDeps_def queryParams_def)

lemma burst_run:
  assumes "isBurst (searchTerm (hook rt)) ks" and "ks \<noteq> []"
  shows "searchTerm (hook (run (keystrokes ks) rt)) = fst (last ks)
   \<and> searchTimeout (run (keystrokes ks) rt) = Some (300 - snd (last ks), fst (last ks))
   \<and> snd (last ks) < 300
   \<and> fetchDeps (hook (run (keystrokes ks) rt)) = fetchDeps ((hook rt)\<lparr> currentPage := 1 \<rparr>)
   \<and> issued (run (keystrokes ks) rt)
        = issued rt @ (if currentPage (hook rt) = 1 then []
                       else [queryParams ((hook rt)\<lparr> currentPage := 1 \<rparr>)])"
  using assms
proof (induction ks arbitrary: rt)
  case Nil
  then show ?case by simp
next
  case (Cons k ks)
  obtain t d where k: "k = (t, d)" by (cases k)
  let ?rt2 = "step (Elapse d) (step (SetSearchTerm t) rt)"
  from Cons.prems k have t: "t \<noteq> searchTerm (hook rt)" and d: "d < 300"
    and rest: "isBurst t ks" by simp_all
  note one = keystroke [OF t d]
  show ?case
  proof (cases "ks = []")
    case True
    then show ?thesis using one d by (simp add: k)
  next
    case False
    have "isBurst (searchTerm (hook ?rt2)) ks" using rest one(1) by simp
    from Cons.IH [OF this False]
    have ih: "searchTerm (hook (run (keystrokes ks) ?rt2)) = fst (last ks)"
      "searchTimeout (run (keystrokes ks) ?rt2) = Some (300 - snd (last ks), fst (last ks))"
      "snd (last ks) < 300"
      "fetchDeps (hook (run (keystrokes ks) ?rt2))
         = fetchDeps ((hook ?rt2)\<lparr> currentPage := 1 \<rparr>)"
      "issued (run (keystrokes ks) ?rt2)
        = issued ?rt2 @ (if currentPage (hook ?rt2) = 1 then []
                       else [queryParams ((hook ?rt2)\<lparr> currentPage := 1 \<rparr>)])"
      by blast+
    have page: "currentPage (hook ?rt2) = 1"
      using one(3) by (simp add: fetchDeps_def)
    have deps: "fetchDeps ((hook ?rt2)\<lparr> currentPage := 1 \<rparr>)
        = fetchDeps ((hook rt)\<lparr> currentPage := 1 \<rparr>)"
      using fetchDeps_page_reset [OF one(3)] by simp
    have unroll: "run (keystrokes (k # ks)) rt = run (keystrokes ks) ?rt2"
      by (simp add: k)
    show ?thesis
      unfolding unroll using ih page deps one(4) False by simp
  qed
qed

text \<open>
  Claim C5, as the code has it. The claim reads: the page is reset to 1, and a fetch
  issued, only after the 300 ms quiet period. \<open>setSearchTerm\<close> resets the page at the
  call. On page 3, at the first keystroke and before any time has passed, the page is
  1, the timer has its full 300 ms left, and a third request has gone out, for page 1
  with the search term of before.
\<close>

theorem setSearchTerm_page_reset_counterexample:
  "currentPage (hook (run [SetCurrentPage 3]
       (mount useVehicleSchedulesData_initial :: (string, nat) runtime))) = 3
   \<and> currentPage (hook (run [SetCurrentPage 3, SetSearchTerm ''abc'']
       (mount useVehicleSchedulesData_initial :: (string, nat) runtime))) = 1
   \<and> searchTimeout (run [SetCurrentPage 3, SetSearchTerm ''abc'']
       (mount useVehicleSchedulesData_initial :: (string, nat) runtime)) = Some (300, ''abc'')
   \<and> map qp_page (issued (run [SetCurrentPage 3, SetSearchTerm ''abc'']
       (mount useVehicleSchedulesData_initial :: (string, nat) runtime))) = [1, 3, 1]
   \<and> map qp_search (issued (run [SetCurrentPage 3, SetSearchTerm ''abc'']
       (mount useVehicleSchedulesData_initial :: (string, nat) runtime)))
       = [None, None, None]"
  by code_simp

text \<open>
  Claim C5, amended. Every call of \<open>setSearchTerm\<close> resets the page to 1 at once and
  leaves the committed (debounced) term as it is; when the page was not 1, the call
  issues a request for page 1 with the term committed before. Through a burst of calls, each
  changing the term and each less than 300 ms after the one before, the committed
  term stays what it was before the burst; the burst issues no request but one for
  page 1 with the old term, and that only when the page was not 1. As long as fewer
  than 300 ms have passed since the last call nothing more happens. Once 300 ms have
  passed since the last call, the last term of the burst, and no other, is committed,
  and one request goes out with it for page 1, unless that term is the one committed
  before: then none does. So a term typed and cleared within the burst is in no
  request.
\<close>

theorem search_debounce:
  assumes burst: "isBurst (searchTerm (hook rt)) ks" and ne: "ks \<noteq> []"
  shows "currentPage (hook (step (SetSearchTerm t0) rt)) = 1
   \<and> debouncedSearchTerm (hook (step (SetSearchTerm t0) rt)) = debouncedSearchTerm (hook rt)
   \<and> issued (step (SetSearchTerm t0) rt)
        = issued rt @ (if currentPage (hook rt) = 1 then []
                       else [queryParams ((hook rt)\<lparr> currentPage := 1 \<rparr>)])
   \<and> debouncedSearchTerm (hook (run (keystrokes ks) rt)) = debouncedSearchTerm (hook rt)
   \<and> currentPage (hook (run (keystrokes ks) rt)) = 1
   \<and> issued (run (keystrokes ks) rt)
        = issued rt @ (if currentPage (hook rt) = 1 then []
                       else [queryParams ((hook rt)\<lparr> currentPage := 1 \<rparr>)])
   \<and> (quiet + snd (last ks) < 300 \<longrightarrow>
        debouncedSearchTerm (hook (step (Elapse quiet) (run (keystrokes ks) rt)))
          = debouncedSearchTerm (hook rt)
        \<and> issued (step (Elapse quiet) (run (keystrokes ks) rt))
          = issued (run (keystrokes ks) rt))
   \<and> (quiet + snd (last ks) \<ge> 300 \<longrightarrow>
        debouncedSearchTerm (hook (step (Elapse quiet) (run (keystrokes ks) rt)))
          = fst (last ks)
        \<and> issued (step (Elapse quiet) (run (keystrokes ks) rt))
          = issued (run (keystrokes ks) rt)
            @ (if fst (last ks) = debouncedSearchTerm (hook rt) then []
               else [queryParams ((hook rt)\<lparr> debouncedSearchTerm := fst (last ks),
                                            currentPage := 1 \<rparr>)]))"
proof -
  let ?rt' = "run (keystrokes ks) rt"
  from burst_run [OF burst ne]
  have timer: "searchTimeout ?rt' = Some (300 - snd (last ks), fst (last ks))"
    and d: "snd (last ks) < 300"
    and deps: "fetchDeps (hook ?rt') = fetchDeps ((hook rt)\<lparr> currentPage := 1 \<rparr>)"
    and iss: "issued ?rt'
        = issued rt @ (if currentPage (hook rt) = 1 then []
                       else [queryParams ((hook rt)\<lparr> currentPage := 1 \<rparr>)])"
    by blast+
  have deb: "debouncedSearchTerm (hook ?rt') = debouncedSearchTerm (hook rt)"
    and page: "currentPage (hook ?rt') = 1"
    using deps by (simp_all add: fetchDeps_def)
  have early: "debouncedSearchTerm (hook (step (Elapse quiet) ?rt'))
          = debouncedSearchTerm (hook rt)
        \<and> issued (step (Elapse quiet) ?rt') = issued ?rt'"
    if "quiet + snd (last ks) < 300"
  proof -
    have wait: "quiet < 300 - snd (last ks)" using that by linarith
    show ?thesis using wait timer deb by simp
  qed
  have qp: "queryParams ((hook ?rt')\<lparr> debouncedSearchTerm := fst (last ks) \<rparr>)
      = queryParams ((hook rt)\<lparr> debouncedSearchTerm := fst (last ks), currentPage := 1 \<rparr>)"
    using queryParams_fetchDeps [OF deps, of "fst (last ks)"] by (simp add: queryParams_def)
  have late: "debouncedSearchTerm (hook (step (Elapse quiet) ?rt')) = fst (last ks)
        \<and> issued (step (Elapse quiet) ?rt')
          = issued ?rt'
            @ (if fst (last ks) = debouncedSearchTerm (hook rt) then []
               else [queryParams ((hook rt)\<lparr> debouncedSearchTerm := fst (last ks),
                                            currentPage := 1 \<rparr>)])"
    if "quiet + snd (last ks) \<ge> 300"
  proof -
    have fire: "\<not> quiet < 300 - snd (last ks)" using that d by linarith
    show ?thesis
      using fire timer deb qp
      by (auto simp: runEffects_def Let_def fetchData_def fetchData_begin_def fetchDeps_def)
  qed
  from setSearchTerm_now [of t0 rt] deb page iss early late show ?thesis by blast
qed

text \<open>
  The spec's scenario: after mounting, \<open>abc\<close> is typed letter by letter over 200 ms and
  cleared 100 ms later; 50 ms after the clearing and then 250 ms of quiet, the
  committed term is still empty and the only request ever issued is the one of
  mounting.
\<close>

theorem search_debounce_witness:
  "isBurst (searchTerm (hook (mount useVehicleSchedulesData_initial :: (string, nat) runtime)))
      [(''a'', 50), (''ab'', 50), (''abc'', 100), ('''', 50)]
   \<and> issued (step (Elapse 250)
        (run (keystrokes [(''a'', 50), (''ab'', 50), (''abc'', 100), ('''', 50)])
          (mount useVehicleSchedulesData_initial :: (string, nat) runtime)))
      = issued (mount useVehicleSchedulesData_initial :: (string, nat) runtime)
   \<and> debouncedSearchTerm (hook (step (Elapse 250)
        (run (keystrokes [(''a'', 50), (''ab'', 50), (''abc'', 100), ('''', 50)])
          (mount useVehicleSchedulesData_initial :: (string, nat) runtime)))) = ''''"
proof -
  define rt where "rt = (mount useVehicleSchedulesData_initial :: (string, nat) runtime)"
  define ks where "ks = [(''a'', 50), (''ab'', 50), (''abc'', 100), ('''', 50::nat)]"
  have cells: "searchTerm (hook rt) = ''''" "debouncedSearchTerm (hook rt) = ''''"
    "currentPage (hook rt) = 1"
    by (simp_all add: rt_def mount_def fetchData_def fetchData_begin_def
          useVehicleSchedulesData_initial_def)
  have b: "isBurst (searchTerm (hook rt)) ks"
    by (simp add: cells ks_def)
  have ne: "ks \<noteq> []" by (simp add: ks_def)
  have l: "fst (last ks) = ''''" "snd (last ks) = 50" by (simp_all add: ks_def)
  note th = search_debounce [OF b ne, of "''a''" 250]
  have during: "issued (run (keystrokes ks) rt) = issued rt"
    using th by (simp add: cells del: step.simps)
  have late: "debouncedSearchTerm (hook (step (Elapse 250) (run (keystrokes ks) rt))) = ''''
      \<and> issued (step (Elapse 250) (run (keystrokes ks) rt)) = issued (run (keystrokes ks) rt)"
    using th by (simp add: cells l del: step.simps)
  have after: "issued (step (Elapse 250) (run (keystrokes ks) rt)) = issued rt"
    using late during by (simp only:)
  from b after late show ?thesis
    unfolding rt_def ks_def by blast
qed


section \<open>Properties of the summary aggregation\<close>

text \<open>
  Claim C9. With no vehicles and no summary from the backend, the dashboard shows 0
  vehicles, 0 active vehicles, 0 for each status, a total maintenance cost of 0, and
  neither the highest-cost nor the lowest-cost vehicle; the drivers are counted from
  the list of drivers.
\<close>

theorem DashboardScreen_empty_collection:
  "DashboardScreen \<lparr> vehicles = [], drivers = ds, fleetSummary = None \<rparr>
     = \<lparr> shownTotalVehicles = 0, shownTotalDrivers = int (length ds),
         shownActiveVehicles = 0, shownTotalMaintenanceCost = 0,
         shownVehicleStatusCounts = \<lparr> active = 0, maintenance = 0, idle = 0 \<rparr>,
         shownHighestCostVehicle = None, shownLowestCostVehicle = None \<rparr>"
  by (simp add: DashboardScreen_def orElse_def countStatus_def)

text \<open>An empty fleet: no vehicles, no drivers, no summary.\<close>

theorem DashboardScreen_empty_collection_witness:
  "DashboardScreen \<lparr> vehicles = [], drivers = ([] :: string list), fleetSummary = None \<rparr>
     = \<lparr> shownTotalVehicles = 0, shownTotalDrivers = 0,
         shownActiveVehicles = 0, shownTotalMaintenanceCost = 0,
         shownVehicleStatusCounts = \<lparr> active = 0, maintenance = 0, idle = 0 \<rparr>,
         shownHighestCostVehicle = None, shownLowestCostVehicle = None \<rparr>"
  using DashboardScreen_empty_collection [of "[] :: string list"] by simp

end
